theory Spec2Isabelle
  imports Complex_Main
begin

section \<open>JavaScript values\<close>

text \<open>
  The client in \<^verbatim>\<open>src/gpt.ts\<close> reads an untyped JSON payload and merges untyped option
  objects, so the embedding starts from a small model of JavaScript values. An object is
  the list of its own properties in creation order; a key is looked up with \<open>map_of\<close>.
  A \<open>string\<close> stands for a JavaScript string whose code units are below 256, one
  \<open>char\<close> per code unit. Numbers are carried around by the client and never computed
  with, so a \<open>real\<close> stands for each of them.
\<close>

datatype json =
    JUndefined
  | JNull
  | JBool bool
  | JNum real
  | JStr string
  | JArr "json list"
  | JObj "(string \<times> json) list"

type_synonym obj = "(string \<times> json) list"

text \<open>
  Thrown values. JavaScript can throw, and a promise can reject with, any value.
  \<open>Error\<close> is what \<^verbatim>\<open>new Error(msg)\<close> builds, \<open>TypeError\<close> is raised by the runtime on a
  bad property read or call, \<open>AxiosError\<close> is an error object rejected by the HTTP
  library; each of these three has a string as its \<^verbatim>\<open>message\<close>. \<open>Thrown\<close> is any other
  value thrown: \<^verbatim>\<open>undefined\<close>, \<^verbatim>\<open>null\<close>, a primitive, an array or a plain object. The
  wording of the runtime's own messages depends on the engine; nothing below relies on it.
\<close>

datatype error = Error string | TypeError string | AxiosError string | Thrown json


text \<open>JavaScript truthiness (\<^verbatim>\<open>!v\<close> is its negation).\<close>

fun truthy :: "json \<Rightarrow> bool" where
  "truthy JUndefined = False"
| "truthy JNull = False"
| "truthy (JBool b) = b"
| "truthy (JNum x) = (x \<noteq> 0)"
| "truthy (JStr s) = (s \<noteq> [])"
| "truthy (JArr vs) = True"
| "truthy (JObj ps) = True"

text \<open>\<^verbatim>\<open>o.k\<close> on an object: the property's value, \<^verbatim>\<open>undefined\<close> when the key is missing.\<close>

definition get_prop :: "obj \<Rightarrow> string \<Rightarrow> json" where
  "get_prop ps k = (case map_of ps k of None \<Rightarrow> JUndefined | Some v \<Rightarrow> v)"

text \<open>
  \<^verbatim>\<open>v.k\<close> on any value, for the keys the client reads (\<^verbatim>\<open>choices\<close>, \<^verbatim>\<open>message\<close>,
  \<^verbatim>\<open>content\<close>), none of which is defined on a primitive's or an array's prototype:
  reading from \<^verbatim>\<open>undefined\<close> or \<^verbatim>\<open>null\<close> throws, reading from any other non-object
  gives \<^verbatim>\<open>undefined\<close>.
\<close>

fun get_member :: "json \<Rightarrow> string \<Rightarrow> error + json" where
  "get_member JUndefined k = Inl (TypeError (''Cannot read properties of undefined (reading '' @ k @ '')''))"
| "get_member JNull k = Inl (TypeError (''Cannot read properties of null (reading '' @ k @ '')''))"
| "get_member (JObj ps) k = Inr (get_prop ps k)"
| "get_member v k = Inr JUndefined"

text \<open>
  \<^verbatim>\<open>err.message\<close> on a caught value: the message of an error object, and the property
  read above on any other value, which throws on \<^verbatim>\<open>undefined\<close> and \<^verbatim>\<open>null\<close>.
\<close>

fun read_message :: "error \<Rightarrow> error + json" where
  "read_message (Error m) = Inr (JStr m)"
| "read_message (TypeError m) = Inr (JStr m)"
| "read_message (AxiosError m) = Inr (JStr m)"
| "read_message (Thrown v) = get_member v ''message''"

text \<open>
  What \<^verbatim>\<open>for (const x of v)\<close> walks through: the elements of an array, the characters of
  a string; any other value is not iterable.
\<close>

fun iterate :: "json \<Rightarrow> error + json list" where
  "iterate (JArr vs) = Inr vs"
| "iterate (JStr s) = Inr (map (\<lambda>c. JStr [c]) s)"
| "iterate v = Inl (TypeError ''value is not iterable'')"

text \<open>
  \<^verbatim>\<open>String.prototype.trim\<close> removes white space and line terminators at both ends. Among
  the code units below 256 these are TAB, LF, VT, FF, CR, SPACE and NBSP.
\<close>

definition isWhiteSpace :: "char \<Rightarrow> bool" where
  "isWhiteSpace c = (of_char c \<in> {9, 10, 11, 12, 13, 32, 160 :: nat})"

definition trim :: "string \<Rightarrow> string" where
  "trim s = rev (dropWhile isWhiteSpace (rev (dropWhile isWhiteSpace s)))"

text \<open>\<^verbatim>\<open>v.trim()\<close> on any value: only a string has the method.\<close>

fun call_trim :: "json \<Rightarrow> error + string" where
  "call_trim (JStr s) = Inr (trim s)"
| "call_trim JUndefined = Inl (TypeError ''Cannot read properties of undefined (reading trim)'')"
| "call_trim JNull = Inl (TypeError ''Cannot read properties of null (reading trim)'')"
| "call_trim v = Inl (TypeError ''trim is not a function'')"

text \<open>
  A \<^verbatim>\<open>Set<string>\<close> keeps its elements in insertion order and ignores the insertion of a
  value it already holds: a list without duplicates.
\<close>

definition Set_add :: "string list \<Rightarrow> string \<Rightarrow> string list" where
  "Set_add xs x = (if x \<in> set xs then xs else xs @ [x])"

text \<open>
  Storing a property keeps the position of a key the object already has and appends a
  new key. The spread \<^verbatim>\<open>{...target, ...source}\<close> stores every own property of the source,
  in order, into the copy made so far.
\<close>

fun obj_set :: "obj \<Rightarrow> string \<Rightarrow> json \<Rightarrow> obj" where
  "obj_set [] k v = [(k, v)]"
| "obj_set ((k', v') # ps) k v =
     (if k' = k then (k, v) # ps else (k', v') # obj_set ps k v)"

definition own_keys :: "obj \<Rightarrow> string list" where
  "own_keys ps = remdups (map fst ps)"

definition spread :: "obj \<Rightarrow> obj \<Rightarrow> obj" where
  "spread target source =
     foldl (\<lambda>acc k. obj_set acc k (get_prop source k)) target (own_keys source)"

text \<open>The decimal text a template literal gives for an integer.\<close>

definition digit_char :: "nat \<Rightarrow> char" where
  "digit_char d = ''0123456789'' ! d"

fun digits :: "nat \<Rightarrow> string" where
  "digits k = (if k < 10 then [digit_char k] else digits (k div 10) @ [digit_char (k mod 10)])"

declare digits.simps [simp del]

definition string_of_int :: "int \<Rightarrow> string" where
  "string_of_int i = (if i < 0 then CHR ''-'' # digits (nat (- i)) else digits (nat i))"

section \<open>The world outside the client\<close>

text \<open>
  The request body, the request and the part of the HTTP response the client reads.
\<close>

record chat_message =
  role :: string
  content :: string

record post_body =
  b_model :: string
  b_messages :: "chat_message list"
  b_max_tokens :: json
  b_temperature :: json
  b_n :: json
  b_top_p :: json
  b_stop :: json

record request =
  url :: string
  body :: post_body
  headers :: "(string \<times> string) list"

record response =
  status :: int
  statusText :: string
  data :: json

text \<open>
  Every effect of the client is an event appended to the trace of the world:
  console output, performance marks and measures, and the HTTP request sent. A measure
  is recorded with the object whose JSON text is put in its name and with its start mark.
  A warning is recorded with the fixed text of its template literal and the value
  interpolated after it; turning a value of the model into text does not throw.
  The process environment is read only.
\<close>

datatype event =
    ConsoleError string
  | ConsoleLog string
  | ConsoleWarn string json
  | PerfMark string
  | PerfMeasure obj string
  | AxiosPost request

record world =
  env :: "string \<Rightarrow> string option"
  trace :: "event list"

definition emit :: "event \<Rightarrow> world \<Rightarrow> world" where
  "emit e w = w\<lparr>trace := trace w @ [e]\<rparr>"


fun posts :: "event list \<Rightarrow> request list" where
  "posts [] = []"
| "posts (AxiosPost r # es) = r # posts es"
| "posts (e # es) = posts es"

text \<open>A step that may end the process (\<^verbatim>\<open>process.exit\<close>) instead of returning.\<close>

datatype 'a proc = ProcessExit int | Returned 'a

section \<open>The client\<close>

definition defaultPostOptions :: obj where
  "defaultPostOptions =
     [(''max_tokens'', JNum 100),
      (''temperature'', JNum 0),
      (''n'', JNum 1),
      (''top_p'', JNum 1),
      (''stop'', JNull)]"

text \<open>
  \<^verbatim>\<open>getEnv\<close>: a value of \<^verbatim>\<open>process.env\<close> is a string or \<^verbatim>\<open>undefined\<close>, and \<^verbatim>\<open>!value\<close>
  holds for \<^verbatim>\<open>undefined\<close> and for the empty string.
\<close>

definition getEnv :: "string \<Rightarrow> world \<Rightarrow> string proc \<times> world" where
  "getEnv name w =
     (case env w name of
        None \<Rightarrow>
          (ProcessExit 1,
           emit (ConsoleError (''Please set the '' @ name @ '' environment variable.'')) w)
      | Some v \<Rightarrow>
          if v = [] then
            (ProcessExit 1,
             emit (ConsoleError (''Please set the '' @ name @ '' environment variable.'')) w)
          else (Returned v, w))"

record OpenAIModel =
  apiEndpoint :: string
  apiKey :: string
  instanceOptions :: obj

text \<open>The constructor; a caller that gives no options passes the empty object.\<close>

definition OpenAIModel_new :: "obj \<Rightarrow> world \<Rightarrow> OpenAIModel proc \<times> world" where
  "OpenAIModel_new opts w =
     (case getEnv ''OPENAI_API_KEY'' w of
        (ProcessExit c, w1) \<Rightarrow> (ProcessExit c, w1)
      | (Returned k, w1) \<Rightarrow>
          (Returned \<lparr>apiEndpoint = ''https://api.openai.com/v1/chat/completions'',
                     apiKey = k,
                     instanceOptions = opts\<rparr>,
           emit (ConsoleLog ''Using OpenAI GPT-4 API'') w1))"

text \<open>The local constants of \<^verbatim>\<open>query\<close>: \<^verbatim>\<open>options\<close>, \<^verbatim>\<open>postOptions\<close> and the request.\<close>

definition options_of :: "OpenAIModel \<Rightarrow> obj \<Rightarrow> obj" where
  "options_of self requestPostOptions =
     spread (spread (spread [] defaultPostOptions) (instanceOptions self)) requestPostOptions"

definition postOptions_of :: "string \<Rightarrow> obj \<Rightarrow> post_body" where
  "postOptions_of prompt options =
     \<lparr>b_model = ''gpt-4'',
      b_messages = [\<lparr>role = ''user'', content = prompt\<rparr>],
      b_max_tokens = get_prop options ''max_tokens'',
      b_temperature = get_prop options ''temperature'',
      b_n = get_prop options ''n'',
      b_top_p = get_prop options ''top_p'',
      b_stop = get_prop options ''stop''\<rparr>"

definition request_of :: "OpenAIModel \<Rightarrow> string \<Rightarrow> obj \<Rightarrow> request" where
  "request_of self prompt requestPostOptions =
     \<lparr>url = apiEndpoint self,
      body = postOptions_of prompt (options_of self requestPostOptions),
      headers = [(''Content-Type'', ''application/json''),
                 (''Authorization'', ''Bearer '' @ apiKey self)]\<rparr>"

text \<open>The loop body's expression \<^verbatim>\<open>choice.message.content.trim()\<close>.\<close>

definition message_content_trim :: "json \<Rightarrow> error + string" where
  "message_content_trim choice =
     (case get_member choice ''message'' of
        Inl e \<Rightarrow> Inl e
      | Inr m \<Rightarrow>
          (case get_member m ''content'' of
             Inl e \<Rightarrow> Inl e
           | Inr c \<Rightarrow> call_trim c))"

text \<open>The loop of \<^verbatim>\<open>query\<close> over the choices; the first throw ends it.\<close>

fun collect :: "json list \<Rightarrow> string list \<Rightarrow> error + string list" where
  "collect [] completions = Inr completions"
| "collect (choice # rest) completions =
     (case message_content_trim choice of
        Inl e \<Rightarrow> Inl e
      | Inr s \<Rightarrow> collect rest (Set_add completions s))"

text \<open>What follows the two checks of the response: \<^verbatim>\<open>res.data.choices || []\<close> and the loop.\<close>

definition read_choices :: "json \<Rightarrow> error + string list" where
  "read_choices d =
     (case get_member d ''choices'' of
        Inl e \<Rightarrow> Inl e
      | Inr ch \<Rightarrow>
          (case iterate (if truthy ch then ch else JArr []) of
             Inl e \<Rightarrow> Inl e
           | Inr cs \<Rightarrow> collect cs []))"

text \<open>
  \<^verbatim>\<open>query\<close>. The HTTP library is the parameter \<open>axios_post\<close>: it answers a request with a
  response or rejects with an error, which \<^verbatim>\<open>await\<close> rethrows.
\<close>

definition query ::
  "(request \<Rightarrow> error + response) \<Rightarrow> OpenAIModel \<Rightarrow> string \<Rightarrow> obj \<Rightarrow> world
     \<Rightarrow> (error + string list) \<times> world" where
  "query axios_post self prompt requestPostOptions w =
     (let options = options_of self requestPostOptions;
          w1 = emit (PerfMark ''openai-query-start'') w;
          req = request_of self prompt requestPostOptions;
          w2 = emit (AxiosPost req) w1
      in case axios_post req of
           Inl e \<Rightarrow> (Inl e, w2)
         | Inr res \<Rightarrow>
             (let w3 = emit (PerfMeasure
                               (obj_set (spread [] options) ''promptLength''
                                  (JNum (real (length prompt))))
                               ''openai-query-start'') w2
              in if status res \<noteq> 200 then
                   (Inl (Error (''Request failed with status '' @ string_of_int (status res)
                                @ '' and message '' @ statusText res)), w3)
                 else if \<not> truthy (data res) then
                   (Inl (Error ''Response data is empty''), w3)
                 else (read_choices (data res), w3)))"

text \<open>
  \<^verbatim>\<open>completions\<close>. The post-processing function \<^verbatim>\<open>trimCompletion\<close> of \<^verbatim>\<open>./syntax\<close> is a
  parameter; it returns the cleaned string or throws.
\<close>

fun postprocess :: "(string \<Rightarrow> error + string) \<Rightarrow> string list \<Rightarrow> string list \<Rightarrow> error + string list" where
  "postprocess trimCompletion [] result = Inr result"
| "postprocess trimCompletion (completion # rest) result =
     (case trimCompletion completion of
        Inl e \<Rightarrow> Inl e
      | Inr s \<Rightarrow> postprocess trimCompletion rest (Set_add result s))"

text \<open>The \<^verbatim>\<open>try\<close> block of \<^verbatim>\<open>completions\<close>.\<close>

definition completions_try ::
  "(request \<Rightarrow> error + response) \<Rightarrow> (string \<Rightarrow> error + string) \<Rightarrow> OpenAIModel \<Rightarrow> string \<Rightarrow> real
     \<Rightarrow> world \<Rightarrow> (error + string list) \<times> world" where
  "completions_try axios_post trimCompletion self prompt temperature w =
     (case query axios_post self prompt [(''temperature'', JNum temperature)] w of
        (Inl e, w1) \<Rightarrow> (Inl e, w1)
      | (Inr qs, w1) \<Rightarrow> (postprocess trimCompletion qs [], w1))"

text \<open>
  \<^verbatim>\<open>completions\<close> with its \<^verbatim>\<open>catch\<close> clause. The template literal reads \<^verbatim>\<open>err.message\<close>
  before \<^verbatim>\<open>console.warn\<close> is called, so a throw of that read leaves no warning and
  leaves \<^verbatim>\<open>completions\<close>.
\<close>

definition completions ::
  "(request \<Rightarrow> error + response) \<Rightarrow> (string \<Rightarrow> error + string) \<Rightarrow> OpenAIModel \<Rightarrow> string \<Rightarrow> real
     \<Rightarrow> world \<Rightarrow> (error + string list) \<times> world" where
  "completions axios_post trimCompletion self prompt temperature w =
     (case completions_try axios_post trimCompletion self prompt temperature w of
        (Inr result, w1) \<Rightarrow> (Inr result, w1)
      | (Inl err, w1) \<Rightarrow>
          (case read_message err of
             Inl e \<Rightarrow> (Inl e, w1)
           | Inr m \<Rightarrow> (Inr [], emit (ConsoleWarn ''Failed to get completions: '' m) w1)))"

section \<open>The specification's vocabulary\<close>

text \<open>
  The definitions of this section follow the words of the specification, not the code;
  the theorems compare them with the client above.
\<close>

text \<open>A lower layer's value overridden by a higher layer, when that layer has the field.\<close>

definition overridden_by :: "json \<Rightarrow> json option \<Rightarrow> json" where
  "overridden_by low high = (case high of None \<Rightarrow> low | Some v \<Rightarrow> v)"

text \<open>The statuses the specification calls 2xx.\<close>

definition is_2xx :: "int \<Rightarrow> bool" where
  "is_2xx s = (200 \<le> s \<and> s < 300)"

text \<open>
  The expected shape of a payload:
  \<^verbatim>\<open>{ "choices": [ { "message": { "content": "<string>" } }, ... ] }\<close>.
  \<open>choice_content\<close> is the content string of a choice of that shape.
\<close>

fun object_props :: "json \<Rightarrow> obj option" where
  "object_props (JObj ps) = Some ps"
| "object_props v = None"

fun string_value :: "json \<Rightarrow> string option" where
  "string_value (JStr s) = Some s"
| "string_value v = None"

definition choice_content :: "json \<Rightarrow> string option" where
  "choice_content c =
     (case object_props c of
        None \<Rightarrow> None
      | Some ps \<Rightarrow>
          (case map_of ps ''message'' of
             None \<Rightarrow> None
           | Some m \<Rightarrow>
               (case object_props m of
                  None \<Rightarrow> None
                | Some qs \<Rightarrow>
                    (case map_of qs ''content'' of
                       None \<Rightarrow> None
                     | Some v \<Rightarrow> string_value v))))"

text \<open>Whether the payload is an object with a \<^verbatim>\<open>choices\<close> field.\<close>

definition has_choices :: "json \<Rightarrow> bool" where
  "has_choices d =
     (case object_props d of None \<Rightarrow> False | Some ps \<Rightarrow> map_of ps ''choices'' \<noteq> None)"

text \<open>The choices of a payload: the elements of its \<^verbatim>\<open>choices\<close> array, none without one.\<close>

fun array_elements :: "json \<Rightarrow> json list" where
  "array_elements (JArr vs) = vs"
| "array_elements v = []"

definition choices_of :: "json \<Rightarrow> json list" where
  "choices_of d =
     (case object_props d of None \<Rightarrow> [] | Some ps \<Rightarrow> array_elements (get_prop ps ''choices''))"

text \<open>
  A payload of the expected shape: its \<^verbatim>\<open>choices\<close> field is missing or empty (falsy), or
  an array whose elements all have a content string.
\<close>

fun choices_shape :: "json \<Rightarrow> bool" where
  "choices_shape (JArr vs) = list_all (\<lambda>c. choice_content c \<noteq> None) vs"
| "choices_shape v = (\<not> truthy v)"

definition expected_shape :: "json \<Rightarrow> bool" where
  "expected_shape d =
     (case object_props d of None \<Rightarrow> True | Some ps \<Rightarrow> choices_shape (get_prop ps ''choices''))"

text \<open>The trimmed contents of a list of choices, in order.\<close>

definition trimmed_contents :: "json list \<Rightarrow> string list" where
  "trimmed_contents cs = map (\<lambda>c. trim (the (choice_content c))) cs"

section \<open>A stubbed transport and test fixtures\<close>

text \<open>A transport that answers every request with the same outcome.\<close>

definition stub_post :: "error + response \<Rightarrow> request \<Rightarrow> error + response" where
  "stub_post outcome req = outcome"

text \<open>A transport that answers at the chat-completion endpoint only.\<close>

definition endpoint_stub :: "response \<Rightarrow> request \<Rightarrow> error + response" where
  "endpoint_stub res req =
     (if url req = ''https://api.openai.com/v1/chat/completions'' then Inr res
      else Inl (AxiosError ''Network Error''))"

text \<open>A choice that holds nothing but its content.\<close>

definition choice_of :: "string \<Rightarrow> json" where
  "choice_of s = JObj [(''message'', JObj [(''content'', JStr s)])]"

text \<open>
  The specification's example payload:
  \<^verbatim>\<open>{"choices":[{"message":{"content":" hi  "}},{"message":{"content":"hi"}}]}\<close>.
\<close>

definition example_payload :: json where
  "example_payload = JObj [(''choices'', JArr [choice_of '' hi  '', choice_of ''hi''])]"

text \<open>A payload whose first completion runs over two lines.\<close>

definition two_line_payload :: json where
  "two_line_payload =
     JObj [(''choices'',
            JArr [choice_of ('' one'' @ [CHR 0x0A] @ ''two ''), choice_of ''one''])]"

text \<open>
  Post-processors: one that truncates at the first line break, one that always throws an
  error object.
\<close>

definition first_line :: "string \<Rightarrow> error + string" where
  "first_line s = Inr (takeWhile (\<lambda>c. c \<noteq> CHR 0x0A) s)"



text \<open>Environments with the credential, without it, and with an empty one.\<close>

definition env_with_key :: "string \<Rightarrow> string option" where
  "env_with_key name = (if name = ''OPENAI_API_KEY'' then Some ''sk-test'' else None)"

definition env_without_key :: "string \<Rightarrow> string option" where
  "env_without_key name = None"

definition env_empty_key :: "string \<Rightarrow> string option" where
  "env_empty_key name = (if name = ''OPENAI_API_KEY'' then Some [] else None)"

definition start_world :: "(string \<Rightarrow> string option) \<Rightarrow> world" where
  "start_world e = \<lparr>env = e, trace = []\<rparr>"

definition test_model :: "obj \<Rightarrow> OpenAIModel" where
  "test_model opts =
     \<lparr>apiEndpoint = ''https://api.openai.com/v1/chat/completions'',
      apiKey = ''sk-test'',
      instanceOptions = opts\<rparr>"

section \<open>Facts about the model\<close>

subsection \<open>Objects, spreads and the trace\<close>

lemma map_of_obj_set: "map_of (obj_set ps k v) = (map_of ps)(k \<mapsto> v)"
  by (induction ps k v rule: obj_set.induct) auto

lemma map_of_foldl_obj_set:
  "map_of (foldl (\<lambda>acc k. obj_set acc k (f k)) t ks) k =
     (if k \<in> set ks then Some (f k) else map_of t k)"
  by (induction ks arbitrary: t) (auto simp: map_of_obj_set)

lemma map_of_spread:
  "map_of (spread t s) k = (case map_of s k of Some v \<Rightarrow> Some v | None \<Rightarrow> map_of t k)"
proof (cases "map_of s k")
  case None
  then have "k \<notin> set (own_keys s)"
    by (simp add: own_keys_def map_of_eq_None_iff)
  with None show ?thesis
    by (simp add: spread_def map_of_foldl_obj_set)
next
  case (Some v)
  then have "k \<in> set (own_keys s)"
    using map_of_eq_None_iff [of s k] by (simp add: own_keys_def)
  with Some show ?thesis
    by (simp add: spread_def map_of_foldl_obj_set get_prop_def)
qed

lemma get_prop_spread:
  "get_prop (spread t s) k = (case map_of s k of Some v \<Rightarrow> v | None \<Rightarrow> get_prop t k)"
  by (simp add: get_prop_def map_of_spread split: option.splits)

lemma get_prop_options_of:
  "get_prop (options_of self call) k =
     (case map_of call k of
        Some v \<Rightarrow> v
      | None \<Rightarrow> (case map_of (instanceOptions self) k of
                   Some v \<Rightarrow> v
                 | None \<Rightarrow> get_prop defaultPostOptions k))"
  by (simp add: options_of_def get_prop_def map_of_spread split: option.splits)


lemma posts_append: "posts (xs @ ys) = posts xs @ posts ys"
  by (induction xs rule: posts.induct) simp_all

lemma trace_query:
  "trace (snd (query axios_post self prompt call w)) =
     trace w @ [PerfMark ''openai-query-start'', AxiosPost (request_of self prompt call)] @
       (case axios_post (request_of self prompt call) of
          Inl e \<Rightarrow> []
        | Inr res \<Rightarrow> [PerfMeasure (obj_set (spread [] (options_of self call)) ''promptLength''
                                  (JNum (real (length prompt)))) ''openai-query-start''])"
  by (simp add: query_def Let_def emit_def split: sum.splits)

lemma env_query: "env (snd (query axios_post self prompt call w)) = env w"
  by (simp add: query_def Let_def emit_def split: sum.splits)

lemma fst_query:
  "fst (query axios_post self prompt call w) =
     (case axios_post (request_of self prompt call) of
        Inl e \<Rightarrow> Inl e
      | Inr res \<Rightarrow>
          if status res \<noteq> 200 then
            Inl (Error (''Request failed with status '' @ string_of_int (status res)
                        @ '' and message '' @ statusText res))
          else if \<not> truthy (data res) then Inl (Error ''Response data is empty'')
          else read_choices (data res))"
  by (simp add: query_def Let_def split: sum.splits)


subsection \<open>Reading the choices\<close>

lemma object_props_Some: "object_props v = Some ps \<longleftrightarrow> v = JObj ps"
  by (cases v) auto

lemma string_value_Some: "string_value v = Some s \<longleftrightarrow> v = JStr s"
  by (cases v) auto

lemma call_trim_no_string: "string_value v = None \<Longrightarrow> isl (call_trim v)"
  by (cases v) auto

lemma content_trim_no_object:
  "object_props m = None \<Longrightarrow>
     isl (case get_member m k of Inl e \<Rightarrow> Inl e | Inr c \<Rightarrow> call_trim c)"
  by (cases m) auto

lemma message_content_trim_Some:
  "choice_content c = Some s \<Longrightarrow> message_content_trim c = Inr (trim s)"
  by (auto simp: choice_content_def message_content_trim_def get_prop_def
                 object_props_Some string_value_Some
           split: option.splits)

lemma message_content_trim_None:
  assumes "choice_content c = None"
  shows "isl (message_content_trim c)"
proof (cases "object_props c")
  case None
  then show ?thesis
    using content_trim_no_object [of JUndefined "''content''"]
    by (cases c) (auto simp: message_content_trim_def)
next
  case (Some ps)
  then have c: "c = JObj ps" by (simp add: object_props_Some)
  show ?thesis
  proof (cases "map_of ps ''message''")
    case None
    then show ?thesis by (simp add: c message_content_trim_def get_prop_def)
  next
    case m: (Some m)
    show ?thesis
    proof (cases "object_props m")
      case None
      then show ?thesis
        using content_trim_no_object [of m "''content''"]
        by (simp add: c m message_content_trim_def get_prop_def)
    next
      case (Some qs)
      then have mq: "m = JObj qs" by (simp add: object_props_Some)
      show ?thesis
      proof (cases "map_of qs ''content''")
        case None
        then show ?thesis by (simp add: c m mq message_content_trim_def get_prop_def)
      next
        case v: (Some v)
        with assms have "string_value v = None"
          by (simp add: choice_content_def c m mq)
        then show ?thesis
          using call_trim_no_string [of v]
          by (simp add: c m mq v message_content_trim_def get_prop_def)
      qed
    qed
  qed
qed

lemma collect_shape:
  "list_all (\<lambda>c. choice_content c \<noteq> None) cs \<Longrightarrow>
     collect cs acc = Inr (foldl Set_add acc (trimmed_contents cs))"
proof (induction cs arbitrary: acc)
  case Nil
  then show ?case by (simp add: trimmed_contents_def)
next
  case (Cons c cs)
  then obtain s where s: "choice_content c = Some s" by auto
  from Cons show ?case
    by (simp add: s message_content_trim_Some [OF s] trimmed_contents_def)
qed

lemma collect_no_shape:
  "\<not> list_all (\<lambda>c. choice_content c \<noteq> None) cs \<Longrightarrow> isl (collect cs acc)"
proof (induction cs arbitrary: acc)
  case Nil
  then show ?case by simp
next
  case (Cons c cs)
  show ?case
  proof (cases "choice_content c")
    case None
    then show ?thesis
      using message_content_trim_None [OF None] by (auto split: sum.splits)
  next
    case (Some s)
    with Cons show ?thesis
      by (simp add: message_content_trim_Some [OF Some])
  qed
qed

lemma set_foldl_Set_add: "set (foldl Set_add acc xs) = set acc \<union> set xs"
  by (induction xs arbitrary: acc) (auto simp: Set_add_def)

lemma distinct_foldl_Set_add: "distinct acc \<Longrightarrow> distinct (foldl Set_add acc xs)"
  by (induction xs arbitrary: acc) (auto simp: Set_add_def)

lemma length_foldl_Set_add: "length (foldl Set_add [] xs) = card (set xs)"
  using distinct_card [of "foldl Set_add [] xs"]
  by (simp add: distinct_foldl_Set_add set_foldl_Set_add)

lemma read_choices_shape:
  assumes "truthy d" "expected_shape d"
  shows "read_choices d = Inr (foldl Set_add [] (trimmed_contents (choices_of d)))"
proof (cases "object_props d")
  case None
  with assms(1) show ?thesis
    by (cases d) (simp_all add: read_choices_def choices_of_def trimmed_contents_def)
next
  case (Some ps)
  then have d: "d = JObj ps" by (simp add: object_props_Some)
  from assms(2) have sh: "choices_shape (get_prop ps ''choices'')"
    by (simp add: expected_shape_def d)
  show ?thesis
  proof (cases "get_prop ps ''choices''")
    case (JArr vs)
    with sh show ?thesis
      by (simp add: d read_choices_def choices_of_def collect_shape)
  qed (use sh in \<open>simp_all add: d read_choices_def choices_of_def trimmed_contents_def\<close>)
qed

lemma read_choices_no_shape:
  assumes "truthy d" "\<not> expected_shape d"
  shows "isl (read_choices d)"
proof (cases "object_props d")
  case None
  with assms(2) show ?thesis by (simp add: expected_shape_def)
next
  case (Some ps)
  then have d: "d = JObj ps" by (simp add: object_props_Some)
  from assms(2) have sh: "\<not> choices_shape (get_prop ps ''choices'')"
    by (simp add: expected_shape_def d)
  show ?thesis
  proof (cases "get_prop ps ''choices''")
    case (JArr vs)
    with sh show ?thesis
      using collect_no_shape [of vs "[]"]
      by (simp add: d read_choices_def split: sum.splits)
  next
    case (JStr s)
    with sh obtain a as where "s = a # as" by (cases s) auto
    with JStr show ?thesis
      by (simp add: d read_choices_def message_content_trim_def)
  qed (use sh in \<open>simp_all add: d read_choices_def\<close>)
qed


subsection \<open>What a call of query leaves in the trace\<close>

lemma posts_query:
  "posts (trace (snd (query axios_post self prompt call w))) =
     posts (trace w) @ [request_of self prompt call]"
  by (simp add: trace_query posts_append split: sum.splits)


subsection \<open>The request body\<close>

lemma body_request_of:
  "body (request_of self prompt call) = postOptions_of prompt (options_of self call)"
  by (simp add: request_of_def)

lemma get_prop_default:
  "get_prop defaultPostOptions ''max_tokens'' = JNum 100"
  "get_prop defaultPostOptions ''temperature'' = JNum 0"
  "get_prop defaultPostOptions ''n'' = JNum 1"
  "get_prop defaultPostOptions ''top_p'' = JNum 1"
  "get_prop defaultPostOptions ''stop'' = JNull"
  by (simp_all add: get_prop_def defaultPostOptions_def)

lemma get_prop_layered:
  "get_prop (options_of self call) k =
     overridden_by (overridden_by (get_prop defaultPostOptions k)
                      (map_of (instanceOptions self) k)) (map_of call k)"
  by (simp add: get_prop_options_of overridden_by_def split: option.splits)

section \<open>Option merging\<close>

text \<open>
  Claim C2. For every instance-options object fixed at construction and every per-call
  options object, the request that \<open>query\<close> sends carries in each of the five option
  fields the built-in default (\<open>max_tokens\<close> 100, \<open>temperature\<close> 0, \<open>n\<close> 1, \<open>top_p\<close> 1,
  \<open>stop\<close> null, that is no stop sequence) overridden by the instance options where they
  have the field, overridden by the per-call options where they have the field.
\<close>

theorem effective_options_layered:
  "posts (trace (snd (query axios_post self prompt call w))) =
     posts (trace w) @ [request_of self prompt call]
   \<and> b_max_tokens (body (request_of self prompt call)) =
       overridden_by (overridden_by (JNum 100) (map_of (instanceOptions self) ''max_tokens''))
         (map_of call ''max_tokens'')
   \<and> b_temperature (body (request_of self prompt call)) =
       overridden_by (overridden_by (JNum 0) (map_of (instanceOptions self) ''temperature''))
         (map_of call ''temperature'')
   \<and> b_n (body (request_of self prompt call)) =
       overridden_by (overridden_by (JNum 1) (map_of (instanceOptions self) ''n''))
         (map_of call ''n'')
   \<and> b_top_p (body (request_of self prompt call)) =
       overridden_by (overridden_by (JNum 1) (map_of (instanceOptions self) ''top_p''))
         (map_of call ''top_p'')
   \<and> b_stop (body (request_of self prompt call)) =
       overridden_by (overridden_by JNull (map_of (instanceOptions self) ''stop''))
         (map_of call ''stop'')"
  by (simp add: posts_query body_request_of postOptions_of_def get_prop_layered get_prop_default)

text \<open>
  The specification's example: the default 100 for \<open>max_tokens\<close>, an instance that sets
  50 and a call that sets 10 give 10.
\<close>

theorem effective_options_layered_witness:
  "b_max_tokens (body (request_of (test_model [(''max_tokens'', JNum 50)]) ''Say hi''
                        [(''max_tokens'', JNum 10)])) = JNum 10
   \<and> b_temperature (body (request_of (test_model [(''max_tokens'', JNum 50)]) ''Say hi''
                        [(''max_tokens'', JNum 10)])) = JNum 0
   \<and> b_max_tokens (body (request_of (test_model [(''max_tokens'', JNum 50)]) ''Say hi'' [])) = JNum 50
   \<and> b_max_tokens (body (request_of (test_model []) ''Say hi'' [])) = JNum 100"
  using effective_options_layered
          [of "stub_post (Inl (AxiosError ''Network Error''))"
              "test_model [(''max_tokens'', JNum 50)]" "''Say hi''"
              "[(''max_tokens'', JNum 10)]" "start_world env_with_key"]
        effective_options_layered
          [of "stub_post (Inl (AxiosError ''Network Error''))"
              "test_model [(''max_tokens'', JNum 50)]" "''Say hi''"
              "[]" "start_world env_with_key"]
        effective_options_layered
          [of "stub_post (Inl (AxiosError ''Network Error''))"
              "test_model []" "''Say hi''"
              "[]" "start_world env_with_key"]
  by (simp add: overridden_by_def test_model_def)

text \<open>
  Claim C10. A per-call options object that has a key with the value \<^verbatim>\<open>undefined\<close>, or an
  instance options object that has one while the call leaves the key out, overrides the
  lower layers: the effective option and the field of the request body are
  \<^verbatim>\<open>undefined\<close>, and for a recognised key this is not the built-in default.
\<close>

theorem undefined_option_overrides:
  assumes "map_of call k = Some JUndefined
           \<or> (map_of call k = None \<and> map_of (instanceOptions self) k = Some JUndefined)"
  shows "get_prop (options_of self call) k = JUndefined
   \<and> (k \<in> set (own_keys defaultPostOptions) \<longrightarrow>
        get_prop (options_of self call) k \<noteq> get_prop defaultPostOptions k)
   \<and> (k = ''max_tokens'' \<longrightarrow> b_max_tokens (body (request_of self prompt call)) = JUndefined)
   \<and> (k = ''temperature'' \<longrightarrow> b_temperature (body (request_of self prompt call)) = JUndefined)
   \<and> (k = ''n'' \<longrightarrow> b_n (body (request_of self prompt call)) = JUndefined)
   \<and> (k = ''top_p'' \<longrightarrow> b_top_p (body (request_of self prompt call)) = JUndefined)
   \<and> (k = ''stop'' \<longrightarrow> b_stop (body (request_of self prompt call)) = JUndefined)"
proof -
  from assms have u: "get_prop (options_of self call) k = JUndefined"
    by (auto simp: get_prop_options_of)
  have d: "k \<in> set (own_keys defaultPostOptions) \<Longrightarrow> get_prop defaultPostOptions k \<noteq> JUndefined"
    by (auto simp: own_keys_def defaultPostOptions_def get_prop_def)
  from u d show ?thesis
    by (auto simp: body_request_of postOptions_of_def)
qed

text \<open>
  An instance sets \<open>max_tokens\<close> to 50 and the call passes \<^verbatim>\<open>{max_tokens: undefined}\<close>:
  the body carries \<^verbatim>\<open>undefined\<close>, where a call without the key would carry 50.
\<close>

theorem undefined_option_overrides_witness:
  "map_of [(''max_tokens'', JUndefined)] ''max_tokens'' = Some JUndefined
   \<and> ''max_tokens'' \<in> set (own_keys defaultPostOptions)
   \<and> get_prop defaultPostOptions ''max_tokens'' = JNum 100
   \<and> b_max_tokens (body (request_of (test_model [(''max_tokens'', JNum 50)]) ''Say hi''
                        [(''max_tokens'', JUndefined)])) = JUndefined
   \<and> b_max_tokens (body (request_of (test_model [(''max_tokens'', JNum 50)]) ''Say hi'' [])) = JNum 50"
  using undefined_option_overrides
          [of "[(''max_tokens'', JUndefined)]" "''max_tokens''"
              "test_model [(''max_tokens'', JNum 50)]" "''Say hi''"]
        get_prop_layered [of "test_model [(''max_tokens'', JNum 50)]" "[]" "''max_tokens''"]
  by (simp add: own_keys_def defaultPostOptions_def get_prop_def body_request_of
                postOptions_of_def overridden_by_def test_model_def)

section \<open>Construction\<close>

text \<open>
  Claim C7. When the environment variable \<^verbatim>\<open>OPENAI_API_KEY\<close> is not set, construction
  ends the process with exit code 1 after printing the diagnostic on the error console,
  and no request has been sent.
\<close>

theorem missing_credential_is_fatal:
  assumes "env w ''OPENAI_API_KEY'' = None"
  shows "OpenAIModel_new opts w =
           (ProcessExit 1,
            emit (ConsoleError ''Please set the OPENAI_API_KEY environment variable.'') w)
         \<and> posts (trace (snd (OpenAIModel_new opts w))) = posts (trace w)"
  using assms by (simp add: OpenAIModel_new_def getEnv_def emit_def posts_append)

text \<open>Construction in an environment without the variable.\<close>

theorem missing_credential_is_fatal_witness:
  "env (start_world env_without_key) ''OPENAI_API_KEY'' = None
   \<and> fst (OpenAIModel_new [] (start_world env_without_key)) = ProcessExit 1
   \<and> trace (snd (OpenAIModel_new [] (start_world env_without_key))) =
       [ConsoleError ''Please set the OPENAI_API_KEY environment variable.'']"
  using missing_credential_is_fatal [of "start_world env_without_key" "[]"]
  by (simp add: start_world_def env_without_key_def emit_def)

text \<open>
  Claim C9. When \<^verbatim>\<open>OPENAI_API_KEY\<close> is set to the empty string, construction ends the
  process in the same way as when the variable is absent: the same exit code, the same
  diagnostic, and no request sent.
\<close>

theorem empty_credential_is_fatal:
  assumes "env w ''OPENAI_API_KEY'' = Some []"
  shows "OpenAIModel_new opts w =
           (ProcessExit 1,
            emit (ConsoleError ''Please set the OPENAI_API_KEY environment variable.'') w)
         \<and> fst (OpenAIModel_new opts w) =
             fst (OpenAIModel_new opts (w\<lparr>env := (env w)(''OPENAI_API_KEY'' := None)\<rparr>))
         \<and> trace (snd (OpenAIModel_new opts w)) =
             trace (snd (OpenAIModel_new opts (w\<lparr>env := (env w)(''OPENAI_API_KEY'' := None)\<rparr>)))
         \<and> posts (trace (snd (OpenAIModel_new opts w))) = posts (trace w)"
  using assms by (simp add: OpenAIModel_new_def getEnv_def emit_def posts_append)

text \<open>Construction in an environment where the variable is the empty string.\<close>

theorem empty_credential_is_fatal_witness:
  "env (start_world env_empty_key) ''OPENAI_API_KEY'' = Some []
   \<and> fst (OpenAIModel_new [] (start_world env_empty_key)) = ProcessExit 1
   \<and> trace (snd (OpenAIModel_new [] (start_world env_empty_key))) =
       [ConsoleError ''Please set the OPENAI_API_KEY environment variable.'']"
  using empty_credential_is_fatal [of "start_world env_empty_key" "[]"]
  by (simp add: start_world_def env_empty_key_def emit_def)

section \<open>The result of query\<close>

subsection \<open>The example payload, evaluated\<close>

lemma example_payload_shape: "truthy example_payload \<and> expected_shape example_payload"
  by (simp add: example_payload_def expected_shape_def get_prop_def choice_of_def choice_content_def)

lemma example_payload_choices:
  "choices_of example_payload = [choice_of '' hi  '', choice_of ''hi'']"
  by (simp add: example_payload_def choices_of_def get_prop_def)

lemma trim_examples: "trim '' hi  '' = ''hi''" "trim ''hi'' = ''hi''"
  by (simp_all add: trim_def isWhiteSpace_def)

lemma read_choices_example: "read_choices example_payload = Inr [''hi'']"
  by (simp add: read_choices_shape example_payload_shape example_payload_choices
        trimmed_contents_def choice_of_def choice_content_def trim_examples Set_add_def)

subsection \<open>The set of completions\<close>

text \<open>
  Claim C1, amended. For every response with status 200 whose payload is non-empty
  (truthy) and of the expected shape, \<open>query\<close> returns the set of the trimmed message
  contents of the payload's choices, duplicates collapsed: the result has no duplicates,
  its elements are the trimmed contents, its size is at most the number of choices, and
  equals it exactly when no two choices trim to the same text.
\<close>

theorem query_returns_trimmed_choices:
  assumes "axios_post (request_of self prompt call) = Inr res"
    and "status res = 200"
    and "truthy (data res)"
    and "expected_shape (data res)"
  shows "\<exists>R. fst (query axios_post self prompt call w) = Inr R
           \<and> set R = set (trimmed_contents (choices_of (data res)))
           \<and> distinct R
           \<and> length R \<le> length (choices_of (data res))
           \<and> (length R = length (choices_of (data res))
                \<longleftrightarrow> distinct (trimmed_contents (choices_of (data res))))"
proof -
  let ?ts = "trimmed_contents (choices_of (data res))"
  let ?R = "foldl Set_add [] ?ts"
  have len: "length ?ts = length (choices_of (data res))"
    by (simp add: trimmed_contents_def)
  from assms have "fst (query axios_post self prompt call w) = Inr ?R"
    by (simp add: fst_query read_choices_shape)
  moreover have "set ?R = set ?ts"
    by (simp add: set_foldl_Set_add)
  moreover have "distinct ?R"
    by (simp add: distinct_foldl_Set_add)
  moreover have "length ?R \<le> length (choices_of (data res))"
    using card_length [of ?ts] by (simp add: length_foldl_Set_add len)
  moreover have "length ?R = length (choices_of (data res)) \<longleftrightarrow> distinct ?ts"
    using card_distinct [of ?ts] distinct_card [of ?ts]
    by (auto simp: length_foldl_Set_add len)
  ultimately show ?thesis by blast
qed

text \<open>
  The specification's example: the contents \<^verbatim>\<open>" hi  "\<close> and \<^verbatim>\<open>"hi"\<close> give the one-element
  set holding \<^verbatim>\<open>"hi"\<close>.
\<close>

theorem query_returns_trimmed_choices_witness:
  "status \<lparr>status = 200, statusText = ''OK'', data = example_payload\<rparr> = 200
   \<and> truthy example_payload
   \<and> expected_shape example_payload
   \<and> trimmed_contents (choices_of example_payload) = [''hi'', ''hi'']
   \<and> fst (query (stub_post (Inr \<lparr>status = 200, statusText = ''OK'', data = example_payload\<rparr>))
            (test_model []) ''Say hi'' [] (start_world env_with_key)) = Inr [''hi'']"
  using query_returns_trimmed_choices
          [of "stub_post (Inr \<lparr>status = 200, statusText = ''OK'', data = example_payload\<rparr>)"
              "test_model []" "''Say hi''" "[]"
              "\<lparr>status = 200, statusText = ''OK'', data = example_payload\<rparr>"
              "start_world env_with_key"]
  by (simp add: stub_post_def example_payload_shape example_payload_choices trimmed_contents_def
        choice_of_def choice_content_def trim_examples fst_query read_choices_example)

text \<open>Status codes as the error message prints them.\<close>

lemma string_of_int_examples:
  "string_of_int 201 = ''201''" "string_of_int 202 = ''202''" "string_of_int 206 = ''206''"
  "string_of_int 429 = ''429''"
  by (simp_all add: string_of_int_def digits.simps digit_char_def)

text \<open>
  Claim C1 as stated, for every 2xx response, fails: the status check of \<open>query\<close> accepts
  200 only, so the example payload under status 201 makes \<open>query\<close> throw.
\<close>

theorem query_rejects_created_counterexample:
  "is_2xx 201
   \<and> truthy example_payload
   \<and> expected_shape example_payload
   \<and> fst (query (stub_post (Inr \<lparr>status = 201, statusText = ''Created'', data = example_payload\<rparr>))
            (test_model []) ''Say hi'' [] (start_world env_with_key))
       = Inl (Error ''Request failed with status 201 and message Created'')"
  by (simp add: is_2xx_def example_payload_shape fst_query stub_post_def string_of_int_examples)

subsection \<open>A payload without choices\<close>

text \<open>
  Claim C6, amended. For every response with status 200 whose non-empty (truthy) payload
  has no \<^verbatim>\<open>choices\<close> field, \<open>query\<close> returns the empty set and does not throw.
\<close>

theorem query_without_choices_is_empty:
  assumes "axios_post (request_of self prompt call) = Inr res"
    and "status res = 200"
    and "truthy (data res)"
    and "\<not> has_choices (data res)"
  shows "fst (query axios_post self prompt call w) = Inr []"
proof -
  have "read_choices (data res) = Inr []"
  proof (cases "object_props (data res)")
    case None
    with assms(3) show ?thesis
      by (cases "data res") (simp_all add: read_choices_def)
  next
    case (Some ps)
    then have d: "data res = JObj ps" by (simp add: object_props_Some)
    with assms(4) have "map_of ps ''choices'' = None"
      by (simp add: has_choices_def)
    then show ?thesis
      by (simp add: d read_choices_def get_prop_def)
  qed
  with assms show ?thesis by (simp add: fst_query)
qed

text \<open>A status 200 payload that holds an id and nothing else.\<close>

theorem query_without_choices_is_empty_witness:
  "status \<lparr>status = 200, statusText = ''OK'', data = JObj [(''id'', JStr ''chatcmpl-1'')]\<rparr> = 200
   \<and> truthy (JObj [(''id'', JStr ''chatcmpl-1'')])
   \<and> \<not> has_choices (JObj [(''id'', JStr ''chatcmpl-1'')])
   \<and> fst (query (stub_post (Inr \<lparr>status = 200, statusText = ''OK'',
                                  data = JObj [(''id'', JStr ''chatcmpl-1'')]\<rparr>))
            (test_model []) ''Say hi'' [] (start_world env_with_key)) = Inr []"
  using query_without_choices_is_empty
          [of "stub_post (Inr \<lparr>status = 200, statusText = ''OK'',
                                data = JObj [(''id'', JStr ''chatcmpl-1'')]\<rparr>)"
              "test_model []" "''Say hi''" "[]"
              "\<lparr>status = 200, statusText = ''OK'', data = JObj [(''id'', JStr ''chatcmpl-1'')]\<rparr>"
              "start_world env_with_key"]
  by (simp add: stub_post_def has_choices_def)

text \<open>
  Claim C6 as stated, for every 2xx response, fails: the same payload under status 202
  makes \<open>query\<close> throw, since the status check accepts 200 only.
\<close>

theorem query_rejects_accepted_counterexample:
  "is_2xx 202
   \<and> truthy (JObj [(''id'', JStr ''chatcmpl-1'')])
   \<and> \<not> has_choices (JObj [(''id'', JStr ''chatcmpl-1'')])
   \<and> fst (query (stub_post (Inr \<lparr>status = 202, statusText = ''Accepted'',
                                  data = JObj [(''id'', JStr ''chatcmpl-1'')]\<rparr>))
            (test_model []) ''Say hi'' [] (start_world env_with_key))
       = Inl (Error ''Request failed with status 202 and message Accepted'')"
  by (simp add: is_2xx_def has_choices_def fst_query stub_post_def string_of_int_examples)

subsection \<open>When query throws\<close>

text \<open>
  Claim C4, amended. \<open>query\<close> throws exactly when the transport rejects, the response
  status is not 200, the payload is missing or empty (falsy), or the payload is not of the
  expected shape; otherwise it returns normally. An error of the transport reaches the
  caller unchanged. For every response whose status is not 200 (429 for one) the error
  carries the status code and the status text. For every response with status 200 whose
  payload is missing or empty the error says that the response data is empty. In every
  case exactly one request is sent: nothing is retried.
\<close>

theorem query_raises_iff:
  "(isl (fst (query axios_post self prompt call w)) \<longleftrightarrow>
      (case axios_post (request_of self prompt call) of
         Inl e \<Rightarrow> True
       | Inr res \<Rightarrow>
           status res \<noteq> 200 \<or> \<not> truthy (data res) \<or> \<not> expected_shape (data res)))
   \<and> (\<forall>e. axios_post (request_of self prompt call) = Inl e \<longrightarrow>
          fst (query axios_post self prompt call w) = Inl e)
   \<and> (\<forall>res. axios_post (request_of self prompt call) = Inr res \<longrightarrow> status res \<noteq> 200 \<longrightarrow>
          fst (query axios_post self prompt call w) =
            Inl (Error (''Request failed with status '' @ string_of_int (status res)
                        @ '' and message '' @ statusText res)))
   \<and> (\<forall>res. axios_post (request_of self prompt call) = Inr res \<longrightarrow> status res = 200 \<longrightarrow>
          \<not> truthy (data res) \<longrightarrow>
          fst (query axios_post self prompt call w) = Inl (Error ''Response data is empty''))
   \<and> posts (trace (snd (query axios_post self prompt call w))) =
       posts (trace w) @ [request_of self prompt call]"
proof -
  have "isl (fst (query axios_post self prompt call w)) \<longleftrightarrow>
      (case axios_post (request_of self prompt call) of
         Inl e \<Rightarrow> True
       | Inr res \<Rightarrow>
           status res \<noteq> 200 \<or> \<not> truthy (data res) \<or> \<not> expected_shape (data res))"
  proof (cases "axios_post (request_of self prompt call)")
    case (Inl e)
    then show ?thesis by (simp add: fst_query)
  next
    case (Inr res)
    show ?thesis
    proof (cases "status res = 200 \<and> truthy (data res)")
      case True
      then show ?thesis
        using read_choices_shape [of "data res"] read_choices_no_shape [of "data res"]
        by (cases "expected_shape (data res)") (simp_all add: fst_query Inr)
    next
      case False
      then show ?thesis by (auto simp: fst_query Inr)
    qed
  qed
  then show ?thesis
    by (simp add: fst_query posts_query)
qed

text \<open>A stub answering 429, a stub answering 200 with an empty body, a failing transport.\<close>

theorem query_raises_iff_witness:
  "fst (query (stub_post (Inr \<lparr>status = 429, statusText = ''Too Many Requests'', data = JNull\<rparr>))
          (test_model []) ''Say hi'' [] (start_world env_with_key))
     = Inl (Error ''Request failed with status 429 and message Too Many Requests'')
   \<and> fst (query (stub_post (Inr \<lparr>status = 200, statusText = ''OK'', data = JStr []\<rparr>))
          (test_model []) ''Say hi'' [] (start_world env_with_key))
     = Inl (Error ''Response data is empty'')
   \<and> fst (query (stub_post (Inl (AxiosError ''Network Error'')))
          (test_model []) ''Say hi'' [] (start_world env_with_key))
     = Inl (AxiosError ''Network Error'')
   \<and> posts (trace (snd (query (stub_post (Inl (AxiosError ''Network Error'')))
          (test_model []) ''Say hi'' [] (start_world env_with_key))))
     = [request_of (test_model []) ''Say hi'' []]"
  using query_raises_iff
          [of "stub_post (Inr \<lparr>status = 429, statusText = ''Too Many Requests'', data = JNull\<rparr>)"
              "test_model []" "''Say hi''" "[]" "start_world env_with_key"]
        query_raises_iff
          [of "stub_post (Inr \<lparr>status = 200, statusText = ''OK'', data = JStr []\<rparr>)"
              "test_model []" "''Say hi''" "[]" "start_world env_with_key"]
        query_raises_iff
          [of "stub_post (Inl (AxiosError ''Network Error''))"
              "test_model []" "''Say hi''" "[]" "start_world env_with_key"]
  by (simp add: stub_post_def string_of_int_examples start_world_def)

text \<open>
  Claim C4 as stated fails in both directions of its "exactly when". Status 206 is a 2xx
  status and the payload is not empty, yet \<open>query\<close> throws, since its check accepts 200
  only. And under status 200 a non-empty payload whose choice has no message makes the
  loop throw a \<open>TypeError\<close>.
\<close>

theorem query_raises_on_2xx_counterexample:
  "is_2xx 206
   \<and> truthy (JObj [(''choices'', JArr [])])
   \<and> fst (query (stub_post (Inr \<lparr>status = 206, statusText = ''Partial Content'',
                                  data = JObj [(''choices'', JArr [])]\<rparr>))
            (test_model []) ''Say hi'' [] (start_world env_with_key))
       = Inl (Error ''Request failed with status 206 and message Partial Content'')
   \<and> is_2xx 200
   \<and> truthy (JObj [(''choices'', JArr [JObj []])])
   \<and> fst (query (stub_post (Inr \<lparr>status = 200, statusText = ''OK'',
                                  data = JObj [(''choices'', JArr [JObj []])]\<rparr>))
            (test_model []) ''Say hi'' [] (start_world env_with_key))
       = Inl (TypeError ''Cannot read properties of undefined (reading content)'')"
  by (simp add: is_2xx_def fst_query stub_post_def string_of_int_examples read_choices_def
        get_prop_def message_content_trim_def)

subsection \<open>Determinism\<close>

text \<open>
  Claim C8. Two calls of \<open>query\<close> with the same prompt and options against the same
  stubbed transport produce equal results, the second call running in the world the first
  one left. More generally the result depends on the transport's answer to the request
  only: not on the world, and not on what the transport answers to other requests.
\<close>

theorem query_deterministic:
  "fst (query axios_post self prompt call (snd (query axios_post self prompt call w))) =
     fst (query axios_post self prompt call w)
   \<and> (\<forall>other_post w'.
         other_post (request_of self prompt call) = axios_post (request_of self prompt call) \<longrightarrow>
         fst (query other_post self prompt call w') = fst (query axios_post self prompt call w))"
  by (simp add: fst_query)

text \<open>
  Two calls, one after the other, against two stubs that answer the request alike; both
  give the set of the example.
\<close>

theorem query_deterministic_witness:
  "endpoint_stub \<lparr>status = 200, statusText = ''OK'', data = example_payload\<rparr>
      (request_of (test_model []) ''Say hi'' [(''n'', JNum 2)])
     = stub_post (Inr \<lparr>status = 200, statusText = ''OK'', data = example_payload\<rparr>)
         (request_of (test_model []) ''Say hi'' [(''n'', JNum 2)])
   \<and> fst (query (endpoint_stub \<lparr>status = 200, statusText = ''OK'', data = example_payload\<rparr>)
            (test_model []) ''Say hi'' [(''n'', JNum 2)]
            (snd (query (stub_post (Inr \<lparr>status = 200, statusText = ''OK'', data = example_payload\<rparr>))
                    (test_model []) ''Say hi'' [(''n'', JNum 2)] (start_world env_with_key))))
     = fst (query (stub_post (Inr \<lparr>status = 200, statusText = ''OK'', data = example_payload\<rparr>))
              (test_model []) ''Say hi'' [(''n'', JNum 2)] (start_world env_with_key))
   \<and> fst (query (stub_post (Inr \<lparr>status = 200, statusText = ''OK'', data = example_payload\<rparr>))
              (test_model []) ''Say hi'' [(''n'', JNum 2)] (start_world env_with_key))
     = Inr [''hi'']"
proof -
  have same:
    "endpoint_stub \<lparr>status = 200, statusText = ''OK'', data = example_payload\<rparr>
        (request_of (test_model []) ''Say hi'' [(''n'', JNum 2)])
     = stub_post (Inr \<lparr>status = 200, statusText = ''OK'', data = example_payload\<rparr>)
         (request_of (test_model []) ''Say hi'' [(''n'', JNum 2)])"
    by (simp add: endpoint_stub_def stub_post_def request_of_def test_model_def)
  have "fst (query (stub_post (Inr \<lparr>status = 200, statusText = ''OK'', data = example_payload\<rparr>))
              (test_model []) ''Say hi'' [(''n'', JNum 2)] (start_world env_with_key))
     = Inr [''hi'']"
    by (simp add: fst_query stub_post_def example_payload_shape read_choices_example)
  with same
    query_deterministic
      [of "stub_post (Inr \<lparr>status = 200, statusText = ''OK'', data = example_payload\<rparr>)"
          "test_model []" "''Say hi''" "[(''n'', JNum 2)]" "start_world env_with_key"]
  show ?thesis
    by simp
qed


section \<open>The result of completions\<close>

subsection \<open>The try block and the catch clause\<close>

lemma fst_completions_try:
  "fst (completions_try axios_post trimCompletion self prompt temperature w) =
     (case fst (query axios_post self prompt [(''temperature'', JNum temperature)] w) of
        Inl e \<Rightarrow> Inl e
      | Inr qs \<Rightarrow> postprocess trimCompletion qs [])"
  by (simp add: completions_try_def split: prod.splits sum.splits)

lemma snd_completions_try:
  "snd (completions_try axios_post trimCompletion self prompt temperature w) =
     snd (query axios_post self prompt [(''temperature'', JNum temperature)] w)"
  by (simp add: completions_try_def split: prod.splits sum.splits)

lemma fst_completions:
  "fst (completions axios_post trimCompletion self prompt temperature w) =
     (case fst (completions_try axios_post trimCompletion self prompt temperature w) of
        Inl err \<Rightarrow> (case read_message err of Inl e \<Rightarrow> Inl e | Inr m \<Rightarrow> Inr [])
      | Inr result \<Rightarrow> Inr result)"
  by (simp add: completions_def split: prod.splits sum.splits)

lemma snd_completions:
  "snd (completions axios_post trimCompletion self prompt temperature w) =
     (case fst (completions_try axios_post trimCompletion self prompt temperature w) of
        Inl err \<Rightarrow>
          (case read_message err of
             Inl e \<Rightarrow> snd (query axios_post self prompt [(''temperature'', JNum temperature)] w)
           | Inr m \<Rightarrow>
               emit (ConsoleWarn ''Failed to get completions: '' m)
                 (snd (query axios_post self prompt [(''temperature'', JNum temperature)] w)))
      | Inr result \<Rightarrow> snd (query axios_post self prompt [(''temperature'', JNum temperature)] w))"
proof (cases "completions_try axios_post trimCompletion self prompt temperature w")
  case (Pair r w1)
  with snd_completions_try [of axios_post trimCompletion self prompt temperature w]
  have "w1 = snd (query axios_post self prompt [(''temperature'', JNum temperature)] w)"
    by simp
  with Pair show ?thesis
    by (cases r) (simp_all add: completions_def split: sum.splits)
qed

lemma postprocess_all:
  "list_all (\<lambda>c. \<not> isl (trimCompletion c)) qs \<Longrightarrow>
     postprocess trimCompletion qs acc =
       Inr (foldl Set_add acc (map (\<lambda>c. projr (trimCompletion c)) qs))"
  by (induction qs arbitrary: acc) (auto split: sum.splits)


subsection \<open>Where a thrown value comes from\<close>











subsection \<open>Failures are caught\<close>




subsection \<open>Post-processing\<close>

lemma read_choices_two_line:
  "read_choices two_line_payload = Inr [''one'' @ [CHR 0x0A] @ ''two'', ''one'']"
  by (simp add: two_line_payload_def read_choices_def get_prop_def choice_of_def
        message_content_trim_def trim_def isWhiteSpace_def Set_add_def)

lemma distinct_singleton: "distinct R \<Longrightarrow> set R = {x} \<Longrightarrow> R = [x]"
proof (cases R)
  case Nil
  assume "set R = {x}"
  with Nil show ?thesis by simp
next
  case (Cons a as)
  assume "distinct R" "set R = {x}"
  with Cons have "a = x" "set as \<subseteq> {x}" "x \<notin> set as" by auto
  then have "as = []" by (cases as) auto
  with Cons \<open>a = x\<close> show ?thesis by simp
qed

lemma truthy_two_line: "truthy two_line_payload"
  by (simp add: two_line_payload_def)

text \<open>
  Claim C5. When \<open>query\<close>, called with the per-call options \<^verbatim>\<open>{ temperature }\<close>, returns
  a set and the post-processing function throws on none of its elements, \<open>completions\<close>
  returns the set of the post-processed elements and logs no warning: it leaves the world
  as \<open>query\<close> left it. The one request sent carries the given temperature; its other
  option fields, \<open>n\<close> included, are the defaults overridden by the instance options.
\<close>

theorem completions_postprocesses_query:
  assumes "fst (query axios_post self prompt [(''temperature'', JNum temperature)] w) = Inr qs"
    and "\<forall>c\<in>set qs. \<not> isl (trimCompletion c)"
  shows "\<exists>R. fst (completions axios_post trimCompletion self prompt temperature w) = Inr R
           \<and> set R = (\<lambda>c. projr (trimCompletion c)) ` set qs
           \<and> distinct R
           \<and> snd (completions axios_post trimCompletion self prompt temperature w) =
               snd (query axios_post self prompt [(''temperature'', JNum temperature)] w)
           \<and> posts (trace (snd (completions axios_post trimCompletion self prompt temperature w))) =
               posts (trace w) @ [request_of self prompt [(''temperature'', JNum temperature)]]
           \<and> b_temperature (body (request_of self prompt [(''temperature'', JNum temperature)])) =
               JNum temperature
           \<and> b_max_tokens (body (request_of self prompt [(''temperature'', JNum temperature)])) =
               overridden_by (JNum 100) (map_of (instanceOptions self) ''max_tokens'')
           \<and> b_n (body (request_of self prompt [(''temperature'', JNum temperature)])) =
               overridden_by (JNum 1) (map_of (instanceOptions self) ''n'')
           \<and> b_top_p (body (request_of self prompt [(''temperature'', JNum temperature)])) =
               overridden_by (JNum 1) (map_of (instanceOptions self) ''top_p'')
           \<and> b_stop (body (request_of self prompt [(''temperature'', JNum temperature)])) =
               overridden_by JNull (map_of (instanceOptions self) ''stop'')"
proof -
  let ?R = "foldl Set_add [] (map (\<lambda>c. projr (trimCompletion c)) qs)"
  from assms(2) have "list_all (\<lambda>c. \<not> isl (trimCompletion c)) qs"
    by (simp add: list_all_iff)
  then have pp: "postprocess trimCompletion qs [] = Inr ?R"
    by (rule postprocess_all)
  with assms(1)
  have tried: "fst (completions_try axios_post trimCompletion self prompt temperature w) = Inr ?R"
    by (simp add: fst_completions_try)
  from tried have "fst (completions axios_post trimCompletion self prompt temperature w) = Inr ?R"
    by (simp add: fst_completions)
  moreover have "set ?R = (\<lambda>c. projr (trimCompletion c)) ` set qs"
    by (simp add: set_foldl_Set_add)
  moreover have "distinct ?R"
    by (simp add: distinct_foldl_Set_add)
  moreover from tried
  have "snd (completions axios_post trimCompletion self prompt temperature w) =
          snd (query axios_post self prompt [(''temperature'', JNum temperature)] w)"
    by (simp add: snd_completions)
  ultimately show ?thesis
    by (simp add: posts_query body_request_of postOptions_of_def get_prop_layered
          get_prop_default overridden_by_def)
qed

text \<open>
  An instance with \<open>n\<close> set to 2 and a payload of two completions that have the same
  first line: post-processing leaves one element, and the request asks for two
  completions at temperature 1.
\<close>

theorem completions_postprocesses_query_witness:
  "fst (query (stub_post (Inr \<lparr>status = 200, statusText = ''OK'', data = two_line_payload\<rparr>))
          (test_model [(''n'', JNum 2)]) ''Count'' [(''temperature'', JNum 1)]
          (start_world env_with_key))
     = Inr [''one'' @ [CHR 0x0A] @ ''two'', ''one'']
   \<and> first_line (''one'' @ [CHR 0x0A] @ ''two'') = Inr ''one''
   \<and> first_line ''one'' = Inr ''one''
   \<and> fst (completions (stub_post (Inr \<lparr>status = 200, statusText = ''OK'', data = two_line_payload\<rparr>))
          first_line (test_model [(''n'', JNum 2)]) ''Count'' 1 (start_world env_with_key))
     = Inr [''one'']
   \<and> b_n (body (request_of (test_model [(''n'', JNum 2)]) ''Count'' [(''temperature'', JNum 1)]))
     = JNum 2
   \<and> b_temperature (body (request_of (test_model [(''n'', JNum 2)]) ''Count''
                         [(''temperature'', JNum 1)]))
     = JNum 1"
proof -
  have q:
    "fst (query (stub_post (Inr \<lparr>status = 200, statusText = ''OK'', data = two_line_payload\<rparr>))
          (test_model [(''n'', JNum 2)]) ''Count'' [(''temperature'', JNum 1)]
          (start_world env_with_key))
     = Inr [''one'' @ [CHR 0x0A] @ ''two'', ''one'']"
    by (simp add: fst_query stub_post_def truthy_two_line read_choices_two_line)
  have ok: "\<forall>c\<in>set [''one'' @ [CHR 0x0A] @ ''two'', ''one'']. \<not> isl (first_line c)"
    by (simp add: first_line_def)
  have f: "first_line (''one'' @ [CHR 0x0A] @ ''two'') = Inr ''one''" "first_line ''one'' = Inr ''one''"
    by (simp_all add: first_line_def)
  from completions_postprocesses_query [OF q ok] obtain R where
    R: "fst (completions (stub_post (Inr \<lparr>status = 200, statusText = ''OK'', data = two_line_payload\<rparr>))
          first_line (test_model [(''n'', JNum 2)]) ''Count'' 1 (start_world env_with_key)) = Inr R"
      "set R = (\<lambda>c. projr (first_line c)) ` set [''one'' @ [CHR 0x0A] @ ''two'', ''one'']"
      "distinct R"
      "b_n (body (request_of (test_model [(''n'', JNum 2)]) ''Count'' [(''temperature'', JNum 1)]))
         = overridden_by (JNum 1) (map_of (instanceOptions (test_model [(''n'', JNum 2)])) ''n'')"
      "b_temperature (body (request_of (test_model [(''n'', JNum 2)]) ''Count''
                         [(''temperature'', JNum 1)])) = JNum 1"
    by blast
  from R(2) f have "set R = {''one''}" by simp
  with R(3) have "R = [''one'']"
    by (simp add: distinct_singleton)
  with q f R show ?thesis
    by (simp add: overridden_by_def test_model_def)
qed

end
